theory Spec2Isabelle
  imports Main "HOL-Library.Word"
begin

section \<open>The power-event collector of gator (driver/gator_trace_power.c)\<close>

text \<open>
  The file is embedded function by function, for the branch compiled when
  \<^verbatim>\<open>GATOR_CPU_FREQ_SUPPORT\<close> is set. The file-scope variables of the C file together
  with the kernel objects the file drives (the delayed work \<^verbatim>\<open>freq_work\<close>, the timer
  \<^verbatim>\<open>freq_wake_up_timer\<close>, the tracepoint registrations, the output of the marshalling
  calls, the keys handed out by \<^verbatim>\<open>gator_events_get_key\<close>) form one record that every
  function takes and returns. What the file reads from the rest of the kernel and of
  gator, and does not define itself, is a parameter: the constants of the build and of
  the booted machine in the record \<open>platform\<close>, the answers of kernel calls in the
  record \<open>kernel\<close>.

  Integers: \<^verbatim>\<open>unsigned int\<close> arguments of the probes are \<open>32 word\<close>; values of type
  \<^verbatim>\<open>ulong\<close> are natural numbers, and the one place where the width of \<^verbatim>\<open>long\<close>
  matters (\<^verbatim>\<open>frequency * 1000L\<close>) has the wrap-around written out. CPU numbers are
  natural numbers; a per-CPU variable is a function of the CPU number.

  Of \<^verbatim>\<open>gator_trace_power_create_files\<close> only the effect of the files it creates is
  embedded: a write to an \<^verbatim>\<open>enabled\<close> file stores into the flag. The reference
  counting of \<^verbatim>\<open>cpufreq_cpu_put\<close> and the two \<^verbatim>\<open>pr_debug\<close>/\<^verbatim>\<open>pr_err\<close> messages have
  no effect on the state and are left out.
\<close>

subsection \<open>Parameters: what the file takes from its surroundings\<close>

datatype hook = cpu_frequency | gpu_frequency | cpu_idle

record platform =
  long_bits :: nat                     \<comment> \<open>width of \<^verbatim>\<open>long\<close>: 32 or 64\<close>
  arm :: bool                          \<comment> \<open>\<^verbatim>\<open>defined(__arm__)\<close>\<close>
  machine_is_omap3_beagle :: bool
  nr_cpu_ids :: nat
  present_cpus :: "nat list"           \<comment> \<open>\<^verbatim>\<open>for_each_present_cpu\<close>, in iteration order\<close>
  lcpu_to_pcpu :: "nat \<Rightarrow> nat"
  msecs_to_jiffies :: "nat \<Rightarrow> nat"

record kernel =
  cpu_online :: "nat \<Rightarrow> bool"
  cpufreq_cpu_get :: "nat \<Rightarrow> 32 word option"  \<comment> \<open>\<^verbatim>\<open>policy->cur\<close> when a policy exists\<close>
  cpufreq_quick_get :: "nat \<Rightarrow> 32 word"
  get_physical_cpu :: nat
  get_logical_cpu :: nat
  jiffies :: nat
  register_trace :: "hook \<Rightarrow> int"    \<comment> \<open>return code of the registration, 0 on success\<close>
  next_key :: "nat list \<Rightarrow> nat"       \<comment> \<open>the key allocator's answer, given the keys issued so far\<close>

subsection \<open>State\<close>

datatype tp_op = Registered hook | Unregistered hook

datatype sample =
    Event_single nat nat nat           \<comment> \<open>\<^verbatim>\<open>marshal_event_single(cpu, key, value)\<close>\<close>
  | Event_single64 nat nat nat         \<comment> \<open>\<^verbatim>\<open>marshal_event_single64(cpu, key, value)\<close>\<close>
  | Idle nat nat                       \<comment> \<open>\<^verbatim>\<open>marshal_idle(cpu, state)\<close>\<close>

record gator =
  idle_prev_state :: "nat \<Rightarrow> nat"
  power_cpu_enabled :: "nat \<Rightarrow> nat"
  power_cpu_key :: "nat \<Rightarrow> nat"
  power_gpu_enabled :: nat
  power_gpu_key :: nat
  power_cpu_cores :: nat
  freq_work_pending :: bool
  freq_wake_up_timer :: "nat option"   \<comment> \<open>the expiry time while the timer is pending\<close>
  tracepoints :: "tp_op list"
  sink :: "sample list"
  keys_issued :: "nat list"

abbreviation (input) POWER_CPU_FREQ :: nat where "POWER_CPU_FREQ \<equiv> 0"
abbreviation (input) POWER_TOTAL :: nat where "POWER_TOTAL \<equiv> 1"

text \<open>The state when the module has been loaded: C zero-initialises static storage.\<close>

definition module_loaded :: gator where
  "module_loaded =
     \<lparr> idle_prev_state = (\<lambda>_. 0), power_cpu_enabled = (\<lambda>_. 0), power_cpu_key = (\<lambda>_. 0),
       power_gpu_enabled = 0, power_gpu_key = 0, power_cpu_cores = 0,
       freq_work_pending = False, freq_wake_up_timer = None,
       tracepoints = [], sink = [], keys_issued = [] \<rparr>"

subsection \<open>Macros and external calls\<close>

definition implements_wfi :: "platform \<Rightarrow> bool" where
  "implements_wfi p = (if arm p then \<not> machine_is_omap3_beagle p else False)"

text \<open>
  \<^verbatim>\<open>x * 1000L\<close> for an \<^verbatim>\<open>unsigned int x\<close>. Where \<^verbatim>\<open>long\<close> has 64 bits, \<open>x\<close> is converted
  to \<^verbatim>\<open>long\<close> and the product is below \<open>2 ^ 42\<close>; where it has 32 bits, both operands are
  converted to \<^verbatim>\<open>unsigned long\<close> and the product is reduced modulo \<open>2 ^ 32\<close>.
\<close>

definition times_1000L :: "platform \<Rightarrow> 32 word \<Rightarrow> nat" where
  "times_1000L p x = (unat x * 1000) mod 2 ^ long_bits p"

definition marshal_event_single :: "nat \<Rightarrow> nat \<Rightarrow> nat \<Rightarrow> gator \<Rightarrow> gator" where
  "marshal_event_single cpu key v s = s\<lparr>sink := sink s @ [Event_single cpu key v]\<rparr>"

definition marshal_event_single64 :: "nat \<Rightarrow> nat \<Rightarrow> nat \<Rightarrow> gator \<Rightarrow> gator" where
  "marshal_event_single64 cpu key v s = s\<lparr>sink := sink s @ [Event_single64 cpu key v]\<rparr>"

definition marshal_idle :: "nat \<Rightarrow> nat \<Rightarrow> gator \<Rightarrow> gator" where
  "marshal_idle cpu state s = s\<lparr>sink := sink s @ [Idle cpu state]\<rparr>"

definition GATOR_REGISTER_TRACE :: "kernel \<Rightarrow> hook \<Rightarrow> gator \<Rightarrow> int \<times> gator" where
  "GATOR_REGISTER_TRACE k h s =
     (let r = register_trace k h
      in (r, if r = 0 then s\<lparr>tracepoints := tracepoints s @ [Registered h]\<rparr> else s))"

definition GATOR_UNREGISTER_TRACE :: "hook \<Rightarrow> gator \<Rightarrow> gator" where
  "GATOR_UNREGISTER_TRACE h s = s\<lparr>tracepoints := tracepoints s @ [Unregistered h]\<rparr>"

definition gator_events_get_key :: "kernel \<Rightarrow> gator \<Rightarrow> nat \<times> gator" where
  "gator_events_get_key k s =
     (let key = next_key k (keys_issued s)
      in (key, s\<lparr>keys_issued := keys_issued s @ [key]\<rparr>))"

definition schedule_delayed_work :: "gator \<Rightarrow> gator" where
  "schedule_delayed_work s = s\<lparr>freq_work_pending := True\<rparr>"

definition setup_deferrable_timer_on_stack :: "gator \<Rightarrow> gator" where
  "setup_deferrable_timer_on_stack s = s\<lparr>freq_wake_up_timer := None\<rparr>"

definition mod_timer :: "nat \<Rightarrow> gator \<Rightarrow> gator" where
  "mod_timer expires s = s\<lparr>freq_wake_up_timer := Some expires\<rparr>"

definition del_timer_sync :: "gator \<Rightarrow> gator" where
  "del_timer_sync s = s\<lparr>freq_wake_up_timer := None\<rparr>"

text \<open>
  The configuration files made by \<^verbatim>\<open>gator_trace_power_create_files\<close> hand the address
  of a flag to \<^verbatim>\<open>gatorfs_create_ulong\<close>: a write to the file stores into the variable.
\<close>

definition write_power_cpu_enabled :: "nat \<Rightarrow> gator \<Rightarrow> gator" where
  "write_power_cpu_enabled v s =
     s\<lparr>power_cpu_enabled := (power_cpu_enabled s)(POWER_CPU_FREQ := v)\<rparr>"

definition write_power_gpu_enabled :: "nat \<Rightarrow> gator \<Rightarrow> gator" where
  "write_power_gpu_enabled v s = s\<lparr>power_gpu_enabled := v\<rparr>"

subsection \<open>The probes\<close>

definition probe_cpu_frequency :: "platform \<Rightarrow> 32 word \<Rightarrow> nat \<Rightarrow> gator \<Rightarrow> gator" where
  "probe_cpu_frequency p frequency cpu s =
     (let cpu = lcpu_to_pcpu p cpu
      in marshal_event_single64 cpu (power_cpu_key s POWER_CPU_FREQ) (times_1000L p frequency) s)"

definition probe_gpu_frequency :: "platform \<Rightarrow> kernel \<Rightarrow> 32 word \<Rightarrow> gator \<Rightarrow> gator" where
  "probe_gpu_frequency p k frequency s =
     (let pcpu = get_physical_cpu k
      in marshal_event_single64 pcpu (power_gpu_key s) (times_1000L p frequency) s)"

definition probe_cpu_idle :: "platform \<Rightarrow> 32 word \<Rightarrow> nat \<Rightarrow> gator \<Rightarrow> gator" where
  "probe_cpu_idle p state cpu s =
     (let cpu = lcpu_to_pcpu p cpu
      in if unat state = idle_prev_state s cpu then s
         else let s1 = (if implements_wfi p then marshal_idle cpu (unat state) s else s)
              in s1\<lparr>idle_prev_state := (idle_prev_state s1)(cpu := unat state)\<rparr>)"

text \<open>A sequence of idle events \<open>(state, cpu)\<close>, delivered one after the other.\<close>

fun idle_events :: "platform \<Rightarrow> (32 word \<times> nat) list \<Rightarrow> gator \<Rightarrow> gator" where
  "idle_events p [] s = s"
| "idle_events p ((state, cpu) # evs) s = idle_events p evs (probe_cpu_idle p state cpu s)"

subsection \<open>Hot-plug notifications\<close>

definition gator_trace_power_online :: "platform \<Rightarrow> kernel \<Rightarrow> gator \<Rightarrow> gator" where
  "gator_trace_power_online p k s =
     (let pcpu = get_physical_cpu k; lcpu = get_logical_cpu k
      in if power_cpu_enabled s POWER_CPU_FREQ \<noteq> 0
         then marshal_event_single64 pcpu (power_cpu_key s POWER_CPU_FREQ)
                (times_1000L p (cpufreq_quick_get k lcpu)) s
         else s)"

definition gator_trace_power_offline :: "kernel \<Rightarrow> gator \<Rightarrow> gator" where
  "gator_trace_power_offline k s =
     (let cpu = get_physical_cpu k
      in if power_cpu_enabled s POWER_CPU_FREQ \<noteq> 0
         then marshal_event_single cpu (power_cpu_key s POWER_CPU_FREQ) 0 s
         else s)"

subsection \<open>The poller\<close>

definition wq_freq_cpu :: "platform \<Rightarrow> kernel \<Rightarrow> nat \<Rightarrow> gator \<Rightarrow> gator" where
  "wq_freq_cpu p k cpu s =
     (if cpu_online k cpu
      then (case cpufreq_cpu_get k cpu of
              Some cur \<Rightarrow>
                marshal_event_single64 cpu (power_cpu_key s POWER_CPU_FREQ) (times_1000L p cur) s
            | None \<Rightarrow> s)
      else marshal_event_single cpu (power_cpu_key s POWER_CPU_FREQ) 0 s)"

fun wq_freq_loop :: "platform \<Rightarrow> kernel \<Rightarrow> nat list \<Rightarrow> gator \<Rightarrow> gator" where
  "wq_freq_loop p k [] s = s"
| "wq_freq_loop p k (cpu # cpus) s = wq_freq_loop p k cpus (wq_freq_cpu p k cpu s)"

definition wq_freq_handler :: "platform \<Rightarrow> kernel \<Rightarrow> gator \<Rightarrow> gator" where
  "wq_freq_handler p k s =
     (let s1 = wq_freq_loop p k (present_cpus p) s
      in mod_timer ((jiffies k + msecs_to_jiffies p 500) mod 2 ^ long_bits p) s1)"

definition freq_wake_up_handler :: "gator \<Rightarrow> gator" where
  "freq_wake_up_handler s = schedule_delayed_work s"

text \<open>
  What the kernel does with the two objects: a pending work item is taken off the queue
  and its handler runs; a pending timer expires and its handler runs. \<open>None\<close> when the
  object is not pending, so that nothing runs.
\<close>

definition run_freq_work :: "platform \<Rightarrow> kernel \<Rightarrow> gator \<Rightarrow> gator option" where
  "run_freq_work p k s =
     (if freq_work_pending s
      then Some (wq_freq_handler p k (s\<lparr>freq_work_pending := False\<rparr>))
      else None)"

definition expire_freq_wake_up_timer :: "gator \<Rightarrow> gator option" where
  "expire_freq_wake_up_timer s =
     (case freq_wake_up_timer s of
        Some expires \<Rightarrow> Some (freq_wake_up_handler (s\<lparr>freq_wake_up_timer := None\<rparr>))
      | None \<Rightarrow> None)"

subsection \<open>Start, stop, init\<close>

definition fail_cpu_frequency_exit :: "gator \<Rightarrow> int \<times> gator" where
  "fail_cpu_frequency_exit s = (- 1, s)"

definition fail_gpufreq_set_exit :: "gator \<Rightarrow> int \<times> gator" where
  "fail_gpufreq_set_exit s =
     fail_cpu_frequency_exit
       (if power_cpu_enabled s POWER_CPU_FREQ \<noteq> 0
        then GATOR_UNREGISTER_TRACE cpu_frequency s else s)"

definition fail_cpu_idle_exit :: "gator \<Rightarrow> int \<times> gator" where
  "fail_cpu_idle_exit s =
     fail_gpufreq_set_exit
       (if power_gpu_enabled s \<noteq> 0 then GATOR_UNREGISTER_TRACE gpu_frequency s else s)"

fun reset_idle_prev_state :: "nat list \<Rightarrow> gator \<Rightarrow> gator" where
  "reset_idle_prev_state [] s = s"
| "reset_idle_prev_state (cpu # cpus) s =
     reset_idle_prev_state cpus (s\<lparr>idle_prev_state := (idle_prev_state s)(cpu := 0)\<rparr>)"

definition gator_trace_power_start :: "platform \<Rightarrow> kernel \<Rightarrow> gator \<Rightarrow> int \<times> gator" where
  "gator_trace_power_start p k s =
     (let (r1, s1) = (if power_cpu_enabled s POWER_CPU_FREQ \<noteq> 0
                      then GATOR_REGISTER_TRACE k cpu_frequency s else (0, s))
      in if r1 \<noteq> 0 then fail_cpu_frequency_exit s1
         else
           let (r2, s2) = (if power_gpu_enabled s1 \<noteq> 0
                           then GATOR_REGISTER_TRACE k gpu_frequency s1 else (0, s1))
           in if r2 \<noteq> 0 then fail_gpufreq_set_exit s2
              else
                let (r3, s3) = GATOR_REGISTER_TRACE k cpu_idle s2
                in if r3 \<noteq> 0 then fail_cpu_idle_exit s3
                   else
                     let s4 = schedule_delayed_work s3;
                         s5 = setup_deferrable_timer_on_stack s4;
                         s6 = reset_idle_prev_state (present_cpus p) s5
                     in (0, s6))"

fun clear_power_cpu_enabled :: "nat list \<Rightarrow> gator \<Rightarrow> gator" where
  "clear_power_cpu_enabled [] s = s"
| "clear_power_cpu_enabled (i # is) s =
     clear_power_cpu_enabled is (s\<lparr>power_cpu_enabled := (power_cpu_enabled s)(i := 0)\<rparr>)"

definition gator_trace_power_stop :: "gator \<Rightarrow> gator" where
  "gator_trace_power_stop s =
     (let s1 = (if power_cpu_enabled s POWER_CPU_FREQ \<noteq> 0
                then GATOR_UNREGISTER_TRACE cpu_frequency s else s);
          s2 = (if power_gpu_enabled s1 \<noteq> 0
                then GATOR_UNREGISTER_TRACE gpu_frequency s1 else s1);
          s3 = GATOR_UNREGISTER_TRACE cpu_idle s2;
          s4 = del_timer_sync s3
      in clear_power_cpu_enabled [0 ..< POWER_TOTAL] s4)"

fun init_loop :: "kernel \<Rightarrow> nat list \<Rightarrow> gator \<Rightarrow> gator" where
  "init_loop k [] s = s"
| "init_loop k (i # is) s =
     (let s1 = s\<lparr>power_cpu_enabled := (power_cpu_enabled s)(i := 0)\<rparr>;
          (key, s2) = gator_events_get_key k s1
      in init_loop k is (s2\<lparr>power_cpu_key := (power_cpu_key s2)(i := key)\<rparr>))"

definition gator_trace_power_init :: "platform \<Rightarrow> kernel \<Rightarrow> gator \<Rightarrow> gator" where
  "gator_trace_power_init p k s =
     init_loop k [0 ..< POWER_TOTAL] (s\<lparr>power_cpu_cores := nr_cpu_ids p\<rparr>)"


subsection \<open>Vocabulary of the properties\<close>

text \<open>
  The registration steps of \<^verbatim>\<open>gator_trace_power_start\<close> in the order of the code, and
  which of them the enabled flags let it take. Step \<open>n\<close> fails when the steps before it
  that were taken have succeeded, step \<open>n\<close> is taken, and its registration is refused.
\<close>

definition registration_steps :: "hook list" where
  "registration_steps = [cpu_frequency, gpu_frequency, cpu_idle]"

definition hook_enabled :: "gator \<Rightarrow> hook \<Rightarrow> bool" where
  "hook_enabled s h =
     (case h of
        cpu_frequency \<Rightarrow> power_cpu_enabled s POWER_CPU_FREQ \<noteq> 0
      | gpu_frequency \<Rightarrow> power_gpu_enabled s \<noteq> 0
      | cpu_idle \<Rightarrow> True)"

definition registered_before :: "gator \<Rightarrow> nat \<Rightarrow> hook list" where
  "registered_before s n = filter (hook_enabled s) (take (n - 1) registration_steps)"

definition fails_at :: "kernel \<Rightarrow> gator \<Rightarrow> nat \<Rightarrow> bool" where
  "fails_at k s n =
     (1 \<le> n \<and> n \<le> 3 \<and>
      list_all (\<lambda>h. register_trace k h = 0) (registered_before s n) \<and>
      hook_enabled s (registration_steps ! (n - 1)) \<and>
      register_trace k (registration_steps ! (n - 1)) \<noteq> 0)"

text \<open>
  For the idle probe: the idle states that the sink has received for one CPU, in order;
  the states that a sequence of events reports for one physical CPU; and, following the
  words of the specification, the states of a sequence that differ from the state
  observed just before them, starting from a given stored state.
\<close>

fun forwarded_idle :: "nat \<Rightarrow> sample list \<Rightarrow> nat list" where
  "forwarded_idle c [] = []"
| "forwarded_idle c (Idle c' st # es) =
     (if c' = c then st # forwarded_idle c es else forwarded_idle c es)"
| "forwarded_idle c (Event_single _ _ _ # es) = forwarded_idle c es"
| "forwarded_idle c (Event_single64 _ _ _ # es) = forwarded_idle c es"

fun observed :: "platform \<Rightarrow> nat \<Rightarrow> (32 word \<times> nat) list \<Rightarrow> nat list" where
  "observed p c [] = []"
| "observed p c ((state, cpu) # evs) =
     (if lcpu_to_pcpu p cpu = c then unat state # observed p c evs else observed p c evs)"

fun transitions :: "nat \<Rightarrow> nat list \<Rightarrow> nat list" where
  "transitions prev [] = []"
| "transitions prev (x # xs) =
     (if x = prev then transitions prev xs else x # transitions x xs)"

text \<open>
  For the poller: the CPU a sample is about; what a call has added to the sink; and the
  samples of one pass for one CPU, given the key.
\<close>

fun sample_cpu :: "sample \<Rightarrow> nat" where
  "sample_cpu (Event_single cpu _ _) = cpu"
| "sample_cpu (Event_single64 cpu _ _) = cpu"
| "sample_cpu (Idle cpu _) = cpu"

definition emitted :: "gator \<Rightarrow> gator \<Rightarrow> sample list" where
  "emitted s s' = drop (length (sink s)) (sink s')"

definition cycle_samples :: "platform \<Rightarrow> kernel \<Rightarrow> nat \<Rightarrow> nat \<Rightarrow> sample list" where
  "cycle_samples p k key c =
     (if cpu_online k c
      then (case cpufreq_cpu_get k c of
              Some cur \<Rightarrow> [Event_single64 c key (times_1000L p cur)]
            | None \<Rightarrow> [])
      else [Event_single c key 0])"

subsection \<open>Concrete machines and sessions\<close>

text \<open>
  A 32-bit ARM board and a 64-bit board, each with four present CPUs numbered alike
  logically and physically, and a kernel in which CPU 3 is offline, CPU 1 has no
  frequency policy, and keys are handed out as 3, 5, 7, ...
\<close>

definition armv7_board :: platform where
  "armv7_board =
     \<lparr> long_bits = 32, arm = True, machine_is_omap3_beagle = False, nr_cpu_ids = 4,
       present_cpus = [0, 1, 2, 3], lcpu_to_pcpu = (\<lambda>c. c),
       msecs_to_jiffies = (\<lambda>ms. ms div 10) \<rparr>"

definition arm64_board :: platform where
  "arm64_board = armv7_board \<lparr> long_bits := 64, arm := False \<rparr>"

definition quiet_kernel :: kernel where
  "quiet_kernel =
     \<lparr> cpu_online = (\<lambda>c. c \<noteq> 3),
       cpufreq_cpu_get = (\<lambda>c. if c = 1 then None else Some 1200000),
       cpufreq_quick_get = (\<lambda>_. 1200000),
       get_physical_cpu = 0, get_logical_cpu = 0, jiffies = 1000,
       register_trace = (\<lambda>_. 0),
       next_key = (\<lambda>ks. 3 + 2 * length ks) \<rparr>"

text \<open>A 32-bit x86 machine: \<^verbatim>\<open>long\<close> has 32 bits and \<^verbatim>\<open>__arm__\<close> is not defined.\<close>

definition i386_box :: platform where
  "i386_box = armv7_board \<lparr> arm := False \<rparr>"



text \<open>The quiet kernel with policies that report 5 GHz (in kHz).\<close>

definition fast_kernel :: kernel where
  "fast_kernel =
     quiet_kernel \<lparr> cpufreq_cpu_get := (\<lambda>c. if c = 1 then None else Some 5000000) \<rparr>"

text \<open>A kernel that refuses the registration of the \<^verbatim>\<open>cpu_idle\<close> probe.\<close>

definition no_idle_kernel :: kernel where
  "no_idle_kernel = quiet_kernel \<lparr> register_trace := (\<lambda>h. if h = cpu_idle then - 1 else 0) \<rparr>"

text \<open>
  A session on a platform: the module is loaded and initialised, both frequency classes
  are enabled through the configuration files, and the collection is started.
\<close>

definition configured :: "platform \<Rightarrow> gator" where
  "configured p =
     write_power_gpu_enabled 1
       (write_power_cpu_enabled 1 (gator_trace_power_init p quiet_kernel module_loaded))"

definition running :: "platform \<Rightarrow> gator" where
  "running p = snd (gator_trace_power_start p quiet_kernel (configured p))"


section \<open>Properties\<close>

lemmas start_defs = gator_trace_power_start_def
  GATOR_REGISTER_TRACE_def GATOR_UNREGISTER_TRACE_def schedule_delayed_work_def
  setup_deferrable_timer_on_stack_def
  fail_cpu_frequency_exit_def fail_gpufreq_set_exit_def fail_cpu_idle_exit_def

lemmas stop_defs = gator_trace_power_stop_def GATOR_UNREGISTER_TRACE_def del_timer_sync_def

lemmas init_defs = gator_trace_power_init_def gator_events_get_key_def

lemmas marshal_defs = marshal_event_single_def marshal_event_single64_def marshal_idle_def

lemmas machine_defs = armv7_board_def arm64_board_def quiet_kernel_def no_idle_kernel_def
  module_loaded_def write_power_cpu_enabled_def write_power_gpu_enabled_def

lemma reset_idle_prev_state_frame [simp]:
  "freq_work_pending (reset_idle_prev_state cs s) = freq_work_pending s"
  "freq_wake_up_timer (reset_idle_prev_state cs s) = freq_wake_up_timer s"
  "tracepoints (reset_idle_prev_state cs s) = tracepoints s"
  "sink (reset_idle_prev_state cs s) = sink s"
  "power_cpu_enabled (reset_idle_prev_state cs s) = power_cpu_enabled s"
  "power_gpu_enabled (reset_idle_prev_state cs s) = power_gpu_enabled s"
  "power_cpu_key (reset_idle_prev_state cs s) = power_cpu_key s"
  "power_gpu_key (reset_idle_prev_state cs s) = power_gpu_key s"
  "keys_issued (reset_idle_prev_state cs s) = keys_issued s"
  by (induction cs arbitrary: s) simp_all

subsection \<open>Rollback of a failed start\<close>

lemma start_fail_1:
  assumes "fails_at k s 1"
  shows "gator_trace_power_start p k s = (- 1, s)"
  using assms
  by (simp add: fails_at_def registered_before_def registration_steps_def hook_enabled_def
        start_defs)

lemma start_fail_2:
  assumes "fails_at k s 2"
  shows "gator_trace_power_start p k s =
     (- 1, s\<lparr>tracepoints := tracepoints s @ map Registered (registered_before s 2)
                @ map Unregistered (rev (registered_before s 2))\<rparr>)"
  using assms
  by (auto simp: fails_at_def registered_before_def registration_steps_def hook_enabled_def
        start_defs Let_def split: if_splits)

lemma start_fail_3:
  assumes "fails_at k s 3"
  shows "gator_trace_power_start p k s =
     (- 1, s\<lparr>tracepoints := tracepoints s @ map Registered (registered_before s 3)
                @ map Unregistered (rev (registered_before s 3))\<rparr>)"
  using assms
  by (auto simp: fails_at_def registered_before_def registration_steps_def hook_enabled_def
        start_defs Let_def numeral_3_eq_3 split: if_splits)

text \<open>
  C2. When \<^verbatim>\<open>gator_trace_power_start\<close> fails at registration step \<open>n\<close> (1:
  \<^verbatim>\<open>cpu_frequency\<close>, 2: \<^verbatim>\<open>gpu_frequency\<close>, 3: \<^verbatim>\<open>cpu_idle\<close>), whatever the enabled
  flags are, it returns \<open>-1\<close>; the tracepoint operations it has performed are the
  registrations of the enabled hooks of the steps before \<open>n\<close>, followed by the
  unregistrations of exactly those hooks in the reverse order; and both enabled flags
  have the value they had before the call.
\<close>

theorem start_failure_rolls_back:
  assumes "fails_at k s n"
  shows "fst (gator_trace_power_start p k s) = - 1 \<and>
         tracepoints (snd (gator_trace_power_start p k s)) =
           tracepoints s @ map Registered (registered_before s n)
             @ map Unregistered (rev (registered_before s n)) \<and>
         power_cpu_enabled (snd (gator_trace_power_start p k s)) = power_cpu_enabled s \<and>
         power_gpu_enabled (snd (gator_trace_power_start p k s)) = power_gpu_enabled s"
proof -
  from assms have "n = 1 \<or> n = 2 \<or> n = 3"
    by (auto simp: fails_at_def)
  then show ?thesis
  proof (elim disjE)
    assume "n = 1"
    with assms start_fail_1 [of k s p] show ?thesis
      by (simp add: registered_before_def)
  next
    assume "n = 2"
    with assms start_fail_2 [of k s p] show ?thesis by simp
  next
    assume "n = 3"
    with assms start_fail_3 [of k s p] show ?thesis by simp
  qed
qed

theorem start_failure_rolls_back_witness:
  "fails_at no_idle_kernel (configured armv7_board) 3 \<and>
   fst (gator_trace_power_start armv7_board no_idle_kernel (configured armv7_board)) = - 1 \<and>
   tracepoints (snd (gator_trace_power_start armv7_board no_idle_kernel (configured armv7_board))) =
     [Registered cpu_frequency, Registered gpu_frequency,
      Unregistered gpu_frequency, Unregistered cpu_frequency] \<and>
   power_cpu_enabled (snd (gator_trace_power_start armv7_board no_idle_kernel (configured armv7_board)))
     POWER_CPU_FREQ = 1 \<and>
   power_gpu_enabled (snd (gator_trace_power_start armv7_board no_idle_kernel (configured armv7_board))) = 1"
proof -
  have f: "fails_at no_idle_kernel (configured armv7_board) 3"
    by (simp add: fails_at_def registered_before_def registration_steps_def hook_enabled_def
          configured_def machine_defs init_defs Let_def numeral_3_eq_3)
  have r: "registered_before (configured armv7_board) 3 = [cpu_frequency, gpu_frequency]"
    by (simp add: registered_before_def registration_steps_def hook_enabled_def
          configured_def machine_defs init_defs Let_def numeral_3_eq_3)
  have t: "tracepoints (configured armv7_board) = []"
    by (simp add: configured_def machine_defs init_defs Let_def)
  have e: "power_cpu_enabled (configured armv7_board) POWER_CPU_FREQ = 1" "power_gpu_enabled (configured armv7_board) = 1"
    by (simp_all add: configured_def machine_defs init_defs Let_def)
  from start_failure_rolls_back [OF f, of armv7_board] f r t e show ?thesis
    by simp
qed

subsection \<open>The idle probe\<close>

lemma forwarded_idle_append [simp]:
  "forwarded_idle c (es @ fs) = forwarded_idle c es @ forwarded_idle c fs"
  by (induction c es rule: forwarded_idle.induct) simp_all

lemma probe_cpu_idle_sink:
  "sink (probe_cpu_idle p state cpu s) =
     sink s @ (if implements_wfi p \<and> unat state \<noteq> idle_prev_state s (lcpu_to_pcpu p cpu)
               then [Idle (lcpu_to_pcpu p cpu) (unat state)] else [])"
  by (simp add: probe_cpu_idle_def marshal_idle_def Let_def)

lemma probe_cpu_idle_prev:
  "idle_prev_state (probe_cpu_idle p state cpu s) =
     (idle_prev_state s)(lcpu_to_pcpu p cpu := unat state)"
  by (auto simp: probe_cpu_idle_def marshal_idle_def Let_def)

lemma idle_events_forwarded:
  assumes "implements_wfi p"
  shows "forwarded_idle c (sink (idle_events p evs s)) =
           forwarded_idle c (sink s) @ transitions (idle_prev_state s c) (observed p c evs)"
  using assms
proof (induction evs arbitrary: s)
  case Nil
  then show ?case by simp
next
  case (Cons ev evs)
  obtain state cpu where ev: "ev = (state, cpu)" by (cases ev)
  show ?case
    using Cons.IH [OF Cons.prems, of "probe_cpu_idle p state cpu s"] Cons.prems
    by (simp add: ev probe_cpu_idle_sink probe_cpu_idle_prev)
qed

lemma idle_events_prev:
  "idle_prev_state (idle_events p evs s) c = last (idle_prev_state s c # observed p c evs)"
proof (induction evs arbitrary: s)
  case Nil
  then show ?case by simp
next
  case (Cons ev evs)
  obtain state cpu where ev: "ev = (state, cpu)" by (cases ev)
  show ?case
    using Cons.IH [of "probe_cpu_idle p state cpu s"]
    by (simp add: ev probe_cpu_idle_prev)
qed


lemma observed_cong:
  "lcpu_to_pcpu q = lcpu_to_pcpu p \<Longrightarrow> observed q c evs = observed p c evs"
  by (induction p c evs rule: observed.induct) simp_all


lemma reset_idle_prev_state_zero:
  "idle_prev_state (reset_idle_prev_state cs s) c =
     (if c \<in> set cs then 0 else idle_prev_state s c)"
  by (induction cs arbitrary: s) auto


lemma running_facts:
  "fst (gator_trace_power_start p quiet_kernel (configured p)) = 0"
  "sink (running p) = []"
  "idle_prev_state (running p) c = 0"
  "power_cpu_key (running p) POWER_CPU_FREQ = 3"
  "power_gpu_key (running p) = 0"
  "power_cpu_enabled (running p) POWER_CPU_FREQ = 1"
  "power_gpu_enabled (running p) = 1"
  "tracepoints (running p) =
     [Registered cpu_frequency, Registered gpu_frequency, Registered cpu_idle]"
  "freq_work_pending (running p)"
  "freq_wake_up_timer (running p) = None"
  by (simp_all add: running_def configured_def machine_defs init_defs start_defs Let_def
        reset_idle_prev_state_zero)

lemma board_facts:
  "implements_wfi armv7_board" "\<not> implements_wfi arm64_board"
  "lcpu_to_pcpu armv7_board = (\<lambda>c. c)" "lcpu_to_pcpu arm64_board = (\<lambda>c. c)"
  "present_cpus armv7_board = [0, 1, 2, 3]" "present_cpus arm64_board = [0, 1, 2, 3]"
  "long_bits armv7_board = 32" "long_bits arm64_board = 64"
  by (simp_all add: implements_wfi_def machine_defs)

text \<open>
  C3, as the code has it. On a platform where \<^verbatim>\<open>implements_wfi()\<close> holds: an idle
  event is forwarded to the sink if and only if its state differs from the state stored
  for the same physical CPU, and the stored state is then the new state; hence, for every
  CPU and every finite sequence of idle events, the idle states forwarded for that CPU
  are those that differ from the state observed just before them for that CPU, starting
  from the stored state. (After a start the stored state of a present CPU is 0, so that
  1, 1, 2, 2, 1 on one CPU forwards 1, 2, 1: the witness.)
\<close>

theorem cpu_idle_forwards_changes:
  assumes "implements_wfi p"
  shows "sink (probe_cpu_idle p state cpu s) =
           sink s @ (if unat state \<noteq> idle_prev_state s (lcpu_to_pcpu p cpu)
                     then [Idle (lcpu_to_pcpu p cpu) (unat state)] else []) \<and>
         idle_prev_state (probe_cpu_idle p state cpu s) (lcpu_to_pcpu p cpu) = unat state \<and>
         forwarded_idle c (sink (idle_events p evs s)) =
           forwarded_idle c (sink s) @ transitions (idle_prev_state s c) (observed p c evs) \<and>
         idle_prev_state (idle_events p evs s) c = last (idle_prev_state s c # observed p c evs)"
  using assms idle_events_forwarded [OF assms, of c evs s]
  by (simp add: probe_cpu_idle_sink probe_cpu_idle_prev idle_events_prev)

theorem cpu_idle_forwards_changes_witness:
  "implements_wfi armv7_board \<and>
   forwarded_idle 2 (sink (idle_events armv7_board [(1, 2), (1, 2), (2, 2), (2, 2), (1, 2)] (running armv7_board)))
     = [1, 2, 1] \<and>
   idle_prev_state (idle_events armv7_board [(1, 2), (1, 2), (2, 2), (2, 2), (1, 2)] (running armv7_board)) 2 = 1"
  using cpu_idle_forwards_changes [where p = armv7_board and c = 2 and s = "running armv7_board"
          and evs = "[(1, 2), (1, 2), (2, 2), (2, 2), (1, 2)]" and state = 0 and cpu = 0]
  by (simp add: board_facts running_facts)

text \<open>
  C3 without the platform condition fails: on a build that is not 32-bit ARM the macro
  is \<^verbatim>\<open>false\<close>, and a state that differs from the stored one is stored but not
  forwarded.
\<close>

theorem cpu_idle_forwards_changes_counterexample:
  "unat (1 :: 32 word) \<noteq> idle_prev_state (running arm64_board) (lcpu_to_pcpu arm64_board 2) \<and>
   sink (probe_cpu_idle arm64_board 1 2 (running arm64_board)) = sink (running arm64_board)"
  by (simp add: probe_cpu_idle_sink board_facts running_facts)








subsection \<open>The poller\<close>

lemma wq_freq_cpu_key [simp]:
  "power_cpu_key (wq_freq_cpu p k c s) = power_cpu_key s"
  by (simp add: wq_freq_cpu_def marshal_defs split: option.splits)

lemma wq_freq_cpu_sink:
  "sink (wq_freq_cpu p k c s) = sink s @ cycle_samples p k (power_cpu_key s POWER_CPU_FREQ) c"
  by (simp add: wq_freq_cpu_def cycle_samples_def marshal_defs split: option.splits)

lemma wq_freq_loop_sink:
  "sink (wq_freq_loop p k cs s) =
     sink s @ concat (map (cycle_samples p k (power_cpu_key s POWER_CPU_FREQ)) cs)"
  by (induction cs arbitrary: s) (simp_all add: wq_freq_cpu_sink)

lemma filter_cycle_samples:
  "filter (\<lambda>e. sample_cpu e = c) (cycle_samples p k key a) =
     (if a = c then cycle_samples p k key a else [])"
  by (auto simp: cycle_samples_def split: option.splits)

lemma filter_concat_cycle_samples:
  assumes "distinct cs"
  shows "filter (\<lambda>e. sample_cpu e = c) (concat (map (cycle_samples p k key) cs)) =
           (if c \<in> set cs then cycle_samples p k key c else [])"
  using assms
  by (induction cs) (auto simp: filter_cycle_samples)

text \<open>
  One pass of \<^verbatim>\<open>wq_freq_handler\<close> over the present CPUs (a CPU mask lists each CPU
  once) keeps what the sink had and adds, for each present CPU, tagged with the
  CpuFrequency key: one sample of value 0 when the CPU is offline; one sample of
  \<^verbatim>\<open>policy->cur * 1000L\<close> when it is online and has a policy; nothing when it is online
  and has no policy. It adds nothing for any other CPU, and it leaves the timer armed to
  expire \<^verbatim>\<open>msecs_to_jiffies(500)\<close> after the current time.
\<close>

lemma poller_cycle:
  assumes "distinct (present_cpus p)"
  shows "take (length (sink s)) (sink (wq_freq_handler p k s)) = sink s \<and>
         filter (\<lambda>e. sample_cpu e = c) (emitted s (wq_freq_handler p k s)) =
           (if c \<in> set (present_cpus p)
            then (if cpu_online k c
                  then (case cpufreq_cpu_get k c of
                          Some cur \<Rightarrow>
                            [Event_single64 c (power_cpu_key s POWER_CPU_FREQ)
                               ((unat cur * 1000) mod 2 ^ long_bits p)]
                        | None \<Rightarrow> [])
                  else [Event_single c (power_cpu_key s POWER_CPU_FREQ) 0])
            else []) \<and>
         freq_wake_up_timer (wq_freq_handler p k s) =
           Some ((jiffies k + msecs_to_jiffies p 500) mod 2 ^ long_bits p)"
proof -
  have s: "sink (wq_freq_handler p k s) =
             sink s @ concat (map (cycle_samples p k (power_cpu_key s POWER_CPU_FREQ))
                               (present_cpus p))"
    by (simp add: wq_freq_handler_def mod_timer_def Let_def wq_freq_loop_sink)
  have t: "freq_wake_up_timer (wq_freq_handler p k s) =
           Some ((jiffies k + msecs_to_jiffies p 500) mod 2 ^ long_bits p)"
    by (simp add: wq_freq_handler_def mod_timer_def Let_def)
  have f: "filter (\<lambda>e. sample_cpu e = c) (emitted s (wq_freq_handler p k s)) =
           (if c \<in> set (present_cpus p)
            then cycle_samples p k (power_cpu_key s POWER_CPU_FREQ) c else [])"
    by (simp add: s emitted_def filter_concat_cycle_samples [OF assms])
  show ?thesis
    unfolding f t by (simp add: s cycle_samples_def times_1000L_def split: option.splits)
qed

lemma poller_cycle_exact:
  assumes "distinct (present_cpus p)" and "long_bits p = 64"
    and "c \<in> set (present_cpus p)" and "cpu_online k c" and "cpufreq_cpu_get k c = Some cur"
  shows "filter (\<lambda>e. sample_cpu e = c) (emitted s (wq_freq_handler p k s)) =
           [Event_single64 c (power_cpu_key s POWER_CPU_FREQ) (unat cur * 1000)]"
proof -
  have "unat cur < 2 ^ 32"
    using unsigned_less [of cur, where 'a = nat] by simp
  then have "unat cur * 1000 < 2 ^ 64" by simp
  with poller_cycle [OF assms(1), of s k c] assms(2-5) show ?thesis by simp
qed

text \<open>
  C6. The pass takes every present CPU once and sends what is said above, and where
  \<^verbatim>\<open>long\<close> has 64 bits the value for an online CPU with a policy is its frequency times
  1000 (\<open>poller_cycle\<close>, \<open>poller_cycle_exact\<close>). Where \<^verbatim>\<open>long\<close> has 32 bits,
  \<^verbatim>\<open>policy->cur * 1000L\<close> is computed in 32 bits: with policies at 5000000 (5 GHz in kHz)
  the pass sends 705032704 for CPUs 0 and 2, not 5000000000. CPU 1 has no policy and gets
  no sample; CPU 3 is offline and gets 0.
\<close>

theorem poller_scaling_wraps_on_32_bit:
  "long_bits i386_box = 32 \<and>
   cpufreq_cpu_get fast_kernel 0 = Some 5000000 \<and>
   unat (5000000 :: 32 word) * 1000 = 5000000000 \<and>
   sink (wq_freq_handler i386_box fast_kernel (running i386_box)) =
     [Event_single64 0 3 705032704, Event_single64 2 3 705032704, Event_single 3 3 0] \<and>
   freq_wake_up_timer (wq_freq_handler i386_box fast_kernel (running i386_box)) = Some 1050"
  by (simp add: wq_freq_handler_def wq_freq_cpu_def mod_timer_def marshal_defs Let_def
        running_facts i386_box_def fast_kernel_def quiet_kernel_def armv7_board_def
        times_1000L_def)

subsection \<open>The frequency probes\<close>

lemma start_registers_cpu_frequency:
  "Registered cpu_frequency \<in> set (drop (length (tracepoints s))
        (tracepoints (snd (gator_trace_power_start p k s)))) \<longrightarrow>
   power_cpu_enabled s POWER_CPU_FREQ \<noteq> 0"
  by (simp add: start_defs Let_def)

lemma start_registers_gpu_frequency:
  "Registered gpu_frequency \<in> set (drop (length (tracepoints s))
        (tracepoints (snd (gator_trace_power_start p k s)))) \<longrightarrow> power_gpu_enabled s \<noteq> 0"
  by (simp add: start_defs Let_def)

text \<open>
  C7, as the code has it. The \<^verbatim>\<open>cpu_frequency\<close> and \<^verbatim>\<open>gpu_frequency\<close> probes do not
  read the enabled flag: whatever value the flag has when the probe is invoked, the probe
  forwards one sample to the sink. The flag is read by \<^verbatim>\<open>gator_trace_power_start\<close>
  instead, which registers a frequency probe only if the flag of its class is set at that
  time.
\<close>

theorem frequency_probes_not_gated:
  "sink (probe_cpu_frequency p frequency cpu (write_power_cpu_enabled v s)) =
     sink s @ [Event_single64 (lcpu_to_pcpu p cpu) (power_cpu_key s POWER_CPU_FREQ)
                 (times_1000L p frequency)] \<and>
   sink (probe_gpu_frequency p k frequency (write_power_gpu_enabled v s)) =
     sink s @ [Event_single64 (get_physical_cpu k) (power_gpu_key s) (times_1000L p frequency)] \<and>
   (Registered cpu_frequency \<in> set (drop (length (tracepoints s))
        (tracepoints (snd (gator_trace_power_start p k s)))) \<longrightarrow>
    power_cpu_enabled s POWER_CPU_FREQ \<noteq> 0) \<and>
   (Registered gpu_frequency \<in> set (drop (length (tracepoints s))
        (tracepoints (snd (gator_trace_power_start p k s)))) \<longrightarrow> power_gpu_enabled s \<noteq> 0)"
proof -
  have a: "sink (probe_cpu_frequency p frequency cpu (write_power_cpu_enabled v s)) =
     sink s @ [Event_single64 (lcpu_to_pcpu p cpu) (power_cpu_key s POWER_CPU_FREQ)
                 (times_1000L p frequency)]"
    by (simp add: probe_cpu_frequency_def marshal_defs write_power_cpu_enabled_def)
  have b: "sink (probe_gpu_frequency p k frequency (write_power_gpu_enabled v s)) =
     sink s @ [Event_single64 (get_physical_cpu k) (power_gpu_key s) (times_1000L p frequency)]"
    by (simp add: probe_gpu_frequency_def marshal_defs write_power_gpu_enabled_def)
  from a b start_registers_cpu_frequency [of s p k] start_registers_gpu_frequency [of s p k]
  show ?thesis by blast
qed

theorem frequency_probes_not_gated_witness:
  "Registered cpu_frequency \<in> set (drop (length (tracepoints (configured armv7_board)))
        (tracepoints (snd (gator_trace_power_start armv7_board quiet_kernel (configured armv7_board))))) \<and>
   power_cpu_enabled (configured armv7_board) POWER_CPU_FREQ \<noteq> 0 \<and>
   Registered gpu_frequency \<in> set (drop (length (tracepoints (configured armv7_board)))
        (tracepoints (snd (gator_trace_power_start armv7_board quiet_kernel (configured armv7_board))))) \<and>
   power_gpu_enabled (configured armv7_board) \<noteq> 0 \<and>
   sink (probe_cpu_frequency armv7_board 1200000 2 (write_power_cpu_enabled 0 (running armv7_board))) =
     [Event_single64 2 3 1200000000]"
proof -
  have t: "tracepoints (configured armv7_board) = []"
    by (simp add: configured_def machine_defs init_defs Let_def)
  have r: "Registered cpu_frequency \<in> set (drop (length (tracepoints (configured armv7_board)))
        (tracepoints (snd (gator_trace_power_start armv7_board quiet_kernel (configured armv7_board)))))"
     "Registered gpu_frequency \<in> set (drop (length (tracepoints (configured armv7_board)))
        (tracepoints (snd (gator_trace_power_start armv7_board quiet_kernel (configured armv7_board)))))"
    using running_facts(8) by (simp_all add: t running_def)
  from frequency_probes_not_gated [where p = armv7_board and k = quiet_kernel
         and frequency = 1200000 and cpu = 2 and v = 0 and s = "running armv7_board"]
     frequency_probes_not_gated [where p = armv7_board and k = quiet_kernel
         and frequency = 1200000 and cpu = 2 and v = 0 and s = "configured armv7_board"] r
  show ?thesis
    by (simp add: board_facts running_facts times_1000L_def)
qed

text \<open>
  C7 with the flag as a gate of the probe fails: in a session started with the
  CpuFrequency flag set, the probe is registered; after the flag has been cleared through
  its configuration file, an event with frequency 1200000 for CPU 2 is still forwarded.
\<close>

theorem frequency_probes_gated_counterexample:
  "tracepoints (write_power_cpu_enabled 0 (running arm64_board)) =
     [Registered cpu_frequency, Registered gpu_frequency, Registered cpu_idle] \<and>
   power_cpu_enabled (write_power_cpu_enabled 0 (running arm64_board)) POWER_CPU_FREQ = 0 \<and>
   sink (write_power_cpu_enabled 0 (running arm64_board)) = [] \<and>
   sink (probe_cpu_frequency arm64_board 1200000 2 (write_power_cpu_enabled 0 (running arm64_board))) =
     [Event_single64 2 3 1200000000]"
  by (simp add: probe_cpu_frequency_def marshal_defs write_power_cpu_enabled_def
        board_facts running_facts times_1000L_def)

lemma times_1000L_exact:
  assumes "long_bits p = 64"
  shows "times_1000L p x = unat x * 1000"
proof -
  have "unat x < 2 ^ 32"
    using unsigned_less [of x, where 'a = nat] by simp
  then have "unat x * 1000 < 2 ^ 64" by simp
  then show ?thesis by (simp add: times_1000L_def assms)
qed

text \<open>
  C9. Where \<^verbatim>\<open>long\<close> has 64 bits the forwarded value is the frequency times 1000
  (\<open>times_1000L_exact\<close>). Where it has 32 bits, \<^verbatim>\<open>frequency * 1000L\<close> is computed in
  32 bits before it is passed on as a 64-bit value: a frequency of 5000000 (5 GHz in kHz)
  is forwarded by either probe as 705032704, not as 5000000000.
\<close>

theorem frequency_scaling_wraps_on_32_bit:
  "long_bits i386_box = 32 \<and>
   unat (5000000 :: 32 word) * 1000 = 5000000000 \<and>
   sink (probe_cpu_frequency i386_box 5000000 0 (running i386_box)) = [Event_single64 0 3 705032704] \<and>
   sink (probe_gpu_frequency i386_box quiet_kernel 5000000 (running i386_box)) =
     [Event_single64 0 0 705032704]"
  by (simp add: probe_cpu_frequency_def probe_gpu_frequency_def marshal_defs
        i386_box_def board_facts running_facts times_1000L_def quiet_kernel_def armv7_board_def)

subsection \<open>Stop and init\<close>

lemma stop_frame:
  "freq_work_pending (gator_trace_power_stop s) = freq_work_pending s"
  "power_gpu_enabled (gator_trace_power_stop s) = power_gpu_enabled s"
  "power_cpu_key (gator_trace_power_stop s) = power_cpu_key s"
  "power_gpu_key (gator_trace_power_stop s) = power_gpu_key s"
  "sink (gator_trace_power_stop s) = sink s"
  "freq_wake_up_timer (gator_trace_power_stop s) = None"
  "power_cpu_enabled (gator_trace_power_stop s) POWER_CPU_FREQ = 0"
  by (simp_all add: stop_defs Let_def)

lemma init_frame:
  "power_gpu_key (gator_trace_power_init p k s) = power_gpu_key s"
  "power_gpu_enabled (gator_trace_power_init p k s) = power_gpu_enabled s"
  "keys_issued (gator_trace_power_init p k s) = keys_issued s @ [next_key k (keys_issued s)]"
  "power_cpu_key (gator_trace_power_init p k s) POWER_CPU_FREQ = next_key k (keys_issued s)"
  "power_cpu_enabled (gator_trace_power_init p k s) POWER_CPU_FREQ = 0"
  by (simp_all add: init_defs Let_def)

lemma stop_quiet_when_no_work:
  assumes "\<not> freq_work_pending s"
  shows "run_freq_work p k (gator_trace_power_stop s) = None \<and>
         expire_freq_wake_up_timer (gator_trace_power_stop s) = None"
  using assms
  by (simp add: run_freq_work_def expire_freq_wake_up_timer_def stop_frame)

text \<open>
  C1. \<^verbatim>\<open>gator_trace_power_stop\<close> deletes the timer and leaves the delayed work alone
  (\<open>stop_frame\<close>): nothing of the poller remains after a stop only when no work was
  pending (\<open>stop_quiet_when_no_work\<close>). In the session that has just been started,
  the work queued by the start is still pending when the stop returns; the kernel then
  runs it, so a pass of the poller executes after the stop, sends three samples, and arms
  the timer again.
\<close>

theorem poller_runs_after_stop:
  "freq_work_pending (gator_trace_power_stop (running armv7_board)) \<and>
   freq_wake_up_timer (gator_trace_power_stop (running armv7_board)) = None \<and>
   map_option sink (run_freq_work armv7_board quiet_kernel (gator_trace_power_stop (running armv7_board))) =
     Some [Event_single64 0 3 1200000000, Event_single64 2 3 1200000000, Event_single 3 3 0] \<and>
   map_option freq_wake_up_timer
     (run_freq_work armv7_board quiet_kernel (gator_trace_power_stop (running armv7_board))) = Some (Some 1050)"
  by (simp add: run_freq_work_def stop_frame running_facts wq_freq_handler_def wq_freq_cpu_def
        mod_timer_def marshal_defs Let_def board_facts machine_defs times_1000L_def)

text \<open>
  C4. \<^verbatim>\<open>gator_trace_power_stop\<close> clears \<^verbatim>\<open>power_cpu_enabled\<close> and keeps both keys, but
  it does not touch \<^verbatim>\<open>power_gpu_enabled\<close> (\<open>stop_frame\<close>): in the session in which both
  classes were enabled, the GpuFrequency flag is still 1 after the stop.
\<close>

theorem stop_keeps_gpu_enabled:
  "power_gpu_enabled (running armv7_board) = 1 \<and>
   power_gpu_enabled (gator_trace_power_stop (running armv7_board)) = 1 \<and>
   power_cpu_enabled (gator_trace_power_stop (running armv7_board)) POWER_CPU_FREQ = 0 \<and>
   power_cpu_key (gator_trace_power_stop (running armv7_board)) POWER_CPU_FREQ = 3 \<and>
   power_gpu_key (gator_trace_power_stop (running armv7_board)) = 0"
  by (simp add: stop_frame running_facts)

text \<open>
  C5. \<^verbatim>\<open>gator_trace_power_init\<close> asks the allocator for one key, for CpuFrequency, and
  assigns nothing to \<^verbatim>\<open>power_gpu_key\<close> (\<open>init_frame\<close>): after the module is loaded and
  initialised, the only key issued is 3, and the GpuFrequency key is the 0 of static
  initialisation, which the allocator has not issued.
\<close>

theorem init_allocates_no_gpu_key:
  "keys_issued (gator_trace_power_init armv7_board quiet_kernel module_loaded) = [3] \<and>
   power_cpu_key (gator_trace_power_init armv7_board quiet_kernel module_loaded) POWER_CPU_FREQ
     = 3 \<and>
   power_gpu_key (gator_trace_power_init armv7_board quiet_kernel module_loaded) = 0"
  by (simp add: init_frame machine_defs)

end
